theory Spec2Isabelle
  imports Main
begin

section \<open>JavaScript values used by the listener\<close>

text \<open>
  The fields of a request body and the columns of a stored row are strings that may
  be absent. \<open>Undefined\<close> and \<open>Null\<close> are JavaScript's two absent values,
  \<open>Str\<close> a string. \<open>truthy\<close> is the test the source writes \<open>!x\<close> for
  (negated), \<open>render\<close> what a template literal or \<open>+\<close> on strings prints.
\<close>

datatype jsval = Undefined | Null | Str string

fun truthy :: "jsval \<Rightarrow> bool" where
  "truthy (Str s) = (s \<noteq> [])"
| "truthy Undefined = False"
| "truthy Null = False"

fun render :: "jsval \<Rightarrow> string" where
  "render Undefined = ''undefined''"
| "render Null = ''null''"
| "render (Str s) = s"

datatype js_error = SyntaxError | TypeError | InvalidUrl

section \<open>Configuration tables and the stored registration\<close>

text \<open>
  What the program takes from outside its source is a parameter of every function that
  uses it: the contents of \<open>config/app_map.hjson\<close> and
  \<open>config/instance_map.hjson\<close>, read at start (the own properties of the two
  objects); \<open>String.prototype.toLowerCase\<close>; and the test the constructor of the
  WebSocket library applies to an address, \<open>new WebSocket(url)\<close> throwing when it fails.
\<close>

record app_entry =
  secret :: jsval

record instance_entry =
  replaceUrl :: jsval

record environment =
  appMap :: "string \<rightharpoonup> app_entry"
  instanceMap :: "string \<rightharpoonup> instance_entry"
  toLowerCase :: "string \<Rightarrow> string"
  url_accepted :: "string \<Rightarrow> bool"

text \<open>
  A row of the table \<open>stream_listener_registration\<close>. \<open>rid\<close> is the primary key
  the ORM adds to every model; \<open>destroy\<close> on an instance deletes the row with that key.
\<close>

record registration =
  rid :: nat
  lastUpdate :: int
  instanceUrl :: jsval
  accessToken :: jsval
  appId :: jsval
  appSecret :: jsval
  callbackUrl :: jsval
  tag :: jsval

text \<open>
  \<open>object[key]\<close> on a plain object: the key is turned into a string; an own property
  is found first; otherwise the names every object inherits from \<open>Object.prototype\<close>
  are found too, and what they hold (a function, or the prototype itself) is a value
  that passes \<open>!x\<close> and has neither a \<open>secret\<close> nor a \<open>replaceUrl\<close>:
  \<open>inherited\<close> is the entry that stands for it.
\<close>

definition prototype_names :: "string list" where
  "prototype_names =
     [''constructor'', ''__proto__'', ''hasOwnProperty'', ''isPrototypeOf'',
      ''propertyIsEnumerable'', ''toLocaleString'', ''toString'', ''valueOf'',
      ''__defineGetter__'', ''__defineSetter__'', ''__lookupGetter__'', ''__lookupSetter__'']"

definition index_object :: "(string \<rightharpoonup> 'a) \<Rightarrow> 'a \<Rightarrow> jsval \<Rightarrow> 'a option" where
  "index_object m inherited k =
     (case m (render k) of
        Some entry \<Rightarrow> Some entry
      | None \<Rightarrow> if render k \<in> set prototype_names then Some inherited else None)"

definition appMap_at :: "environment \<Rightarrow> jsval \<Rightarrow> app_entry option" where
  "appMap_at env k = index_object (appMap env) \<lparr>secret = Undefined\<rparr> k"

definition instanceMap_at :: "environment \<Rightarrow> jsval \<Rightarrow> instance_entry option" where
  "instanceMap_at env k = index_object (instanceMap env) \<lparr>replaceUrl = Undefined\<rparr> k"

section \<open>Validators\<close>

definition checkAppId :: "environment \<Rightarrow> jsval \<Rightarrow> jsval \<Rightarrow> string option" where
  "checkAppId env app_id app_secret =
     (if \<not> truthy app_id then Some ''missing app_id''
      else case appMap_at env app_id of
             None \<Rightarrow> Some (''missing app configuration for app: '' @ render app_id)
           | Some appEntry \<Rightarrow>
               if secret appEntry \<noteq> app_secret then Some ''app_secret not match.''
               else None)"

definition checkInstanceUrl :: "environment \<Rightarrow> jsval \<Rightarrow> string option" where
  "checkInstanceUrl env instance_url =
     (if \<not> truthy instance_url then Some ''missing instance_url''
      else case instanceMap_at env instance_url of
             Some instanceEntry \<Rightarrow> None
           | None \<Rightarrow>
               (case instanceMap_at env (Str ''*'') of
                  None \<Rightarrow> Some (''missing instance configuration for instance: '' @
                                 render instance_url)
                | Some instanceEntry \<Rightarrow> None))"

definition getReplaceUrl :: "environment \<Rightarrow> jsval \<Rightarrow> jsval" where
  "getReplaceUrl env instance_url =
     (if truthy instance_url then
        (case instanceMap_at env instance_url of
           Some instanceEntry \<Rightarrow>
             if truthy (replaceUrl instanceEntry) then replaceUrl instanceEntry
             else instance_url
         | None \<Rightarrow> instance_url)
      else instance_url)"

text \<open>The regular expression \<open>/[?&=/]/\<close>: some character of the string is one of the four.\<close>

definition has_invalid_character :: "string \<Rightarrow> bool" where
  "has_invalid_character s = list_ex (\<lambda>c. List.member ''?&=/'' c) s"

definition checkAccessToken :: "jsval \<Rightarrow> string option" where
  "checkAccessToken access_token =
     (if \<not> truthy access_token then Some ''missing access_token''
      else if has_invalid_character (render access_token)
           then Some ''access_token contains invalid character''
      else None)"

section \<open>The registry key\<close>

definition key_of :: "jsval \<Rightarrow> jsval \<Rightarrow> jsval \<Rightarrow> string" where
  "key_of instance_url app_id tg = render instance_url @ '':'' @ render app_id @ '':'' @ render tg"

definition ws_key :: "registration \<Rightarrow> string" where
  "ws_key r = key_of (instanceUrl r) (appId r) (tag r)"

section \<open>Upstream frames and the callback\<close>

text \<open>
  The value \<open>JSON.parse\<close> returns; the number type is left open. In \<open>JObj\<close> the
  list holds the properties of the parsed object, each name once.
\<close>

datatype 'n json =
    JNull
  | JBool bool
  | JNum 'n
  | JStr string
  | JArr "'n json list"
  | JObj "(string \<times> 'n json) list"

text \<open>
  Reading the property \<open>event\<close> or \<open>payload\<close> of a parsed value other than
  \<open>null\<close>: an object has it or not; a string, number, boolean or array has neither.
  \<open>None\<close> is \<open>undefined\<close>.
\<close>

fun property :: "string \<Rightarrow> 'n json \<Rightarrow> 'n json option" where
  "property k (JObj fs) = map_of fs k"
| "property k j = None"

text \<open>
  The object handed to \<open>JSON.stringify\<close>; a \<open>payload\<close> that is \<open>undefined\<close>
  is left out of the text by \<open>JSON.stringify\<close>.
\<close>

record 'n message =
  m_instanceUrl :: jsval
  m_tag :: jsval
  m_appId :: jsval
  m_payload :: "'n json option"

record 'n http_post =
  post_url :: jsval
  post_body :: "'n message"
  post_headers :: "(string \<times> string) list"

text \<open>
  \<open>onMessage\<close> of the session of registration \<open>r\<close>. The argument is the outcome of
  \<open>JSON.parse(data)\<close>, \<open>None\<close> when it throws. The result lists the calls of
  \<open>axios.post\<close> the handler makes; the promise's \<open>then\<close> and \<open>catch\<close> only log.
\<close>

definition onMessage :: "registration \<Rightarrow> 'n json option \<Rightarrow> js_error + 'n http_post list" where
  "onMessage r parsed =
     (case parsed of
        None \<Rightarrow> Inl SyntaxError
      | Some js \<Rightarrow>
          if js = JNull then Inl TypeError
          else if property ''event'' js \<noteq> Some (JStr ''notification'') then Inr []
          else Inr [\<lparr>post_url = callbackUrl r,
                     post_body = \<lparr>m_instanceUrl = instanceUrl r, m_tag = tag r,
                                  m_appId = appId r, m_payload = property ''payload'' js\<rparr>,
                     post_headers = [(''Content-Type'', ''application/json'')]\<rparr>])"

section \<open>The process state\<close>

text \<open>
  A socket made by \<open>new WebSocket(url)\<close>: its address, its \<open>readyState\<close>
  (0 to 3 in the library) and the session whose handlers are attached to it.
  A socket's number is its position in \<open>sockets\<close>.
\<close>

datatype readyState = CONNECTING | OPEN | CLOSING | CLOSED

record websocket =
  ws_url :: string
  ws_state :: readyState
  ws_session :: nat

text \<open>
  One call of \<open>connectForUser\<close> that got past the registry test owns the variables
  \<open>registration\<close>, \<open>heartbeat\<close> and \<open>last_check\<close>, shared by all its handlers.
  \<open>heartbeat\<close> is the handle of the last \<open>setInterval\<close>, \<open>None\<close> before the first.
\<close>

record session =
  registration :: registration
  heartbeat :: "nat option"
  last_check :: int

record interval =
  iv_session :: nat
  iv_socket :: nat
  iv_active :: bool

text \<open>
  \<open>wsStorage\<close> is the global object of that name. \<open>timeouts\<close> holds the pending
  \<open>setTimeout(() => reconnect(), delay)\<close> calls as (delay, session). \<open>store\<close> is the
  table, \<open>nextId\<close> its next primary key, and \<open>storeUp\<close> says whether the database
  answers: when it does not, a query's promise rejects. \<open>rejections\<close> counts the
  rejections nobody catches (the process logs them and goes on), \<open>storeReads\<close> the
  times at which the expiry check queried the table. \<open>crashed\<close> is set when an
  exception leaves a timer's function: the process ends there.
\<close>

record state =
  wsStorage :: "string \<rightharpoonup> nat"
  sockets :: "websocket list"
  sessions :: "session list"
  intervals :: "interval list"
  timeouts :: "(nat \<times> nat) list"
  store :: "registration list"
  nextId :: nat
  storeUp :: bool
  rejections :: nat
  storeReads :: "int list"
  crashed :: bool

definition live :: "websocket \<Rightarrow> bool" where
  "live w = (ws_state w = CONNECTING \<or> ws_state w = OPEN)"

text \<open>\<open>ws.close()\<close>: nothing on a closed socket, else the socket starts closing.\<close>

definition ws_close :: "nat \<Rightarrow> state \<Rightarrow> state" where
  "ws_close sid s =
     (if ws_state (sockets s ! sid) = CLOSED then s
      else s\<lparr>sockets := (sockets s)[sid := (sockets s ! sid)\<lparr>ws_state := CLOSING\<rparr>]\<rparr>)"

definition clearInterval :: "nat option \<Rightarrow> state \<Rightarrow> state" where
  "clearInterval h s =
     (case h of
        None \<Rightarrow> s
      | Some i \<Rightarrow> s\<lparr>intervals := (intervals s)[i := (intervals s ! i)\<lparr>iv_active := False\<rparr>]\<rparr>)"

text \<open>\<open>registration.destroy()\<close>: deletes the row with the instance's primary key.\<close>

definition destroy :: "registration \<Rightarrow> state \<Rightarrow> state" where
  "destroy r s =
     (if storeUp s then s\<lparr>store := filter (\<lambda>x. rid x \<noteq> rid r) (store s)\<rparr>
      else s\<lparr>rejections := Suc (rejections s)\<rparr>)"

definition findOne :: "jsval \<Rightarrow> jsval \<Rightarrow> jsval \<Rightarrow> registration list \<Rightarrow> registration option" where
  "findOne instance_url app_id tg rows =
     find (\<lambda>x. instanceUrl x = instance_url \<and> appId x = app_id \<and> tag x = tg) rows"

section \<open>Stopping and starting a session\<close>

definition disconnectForUser :: "registration \<Rightarrow> state \<Rightarrow> state" where
  "disconnectForUser r s =
     destroy r
       (case wsStorage s (ws_key r) of
          Some sid \<Rightarrow> (ws_close sid s)\<lparr>wsStorage := (wsStorage s)(ws_key r := None)\<rparr>
        | None \<Rightarrow> s)"

text \<open>The local function \<open>close\<close> of session \<open>cid\<close>.\<close>

definition close :: "nat \<Rightarrow> state \<Rightarrow> state" where
  "close cid s =
     disconnectForUser (registration (sessions s ! cid))
       (clearInterval (heartbeat (sessions s ! cid)) s)"

definition stream_url :: "environment \<Rightarrow> registration \<Rightarrow> string" where
  "stream_url env r =
     render (getReplaceUrl env (instanceUrl r)) @ ''/api/v1/streaming/?access_token='' @
     render (accessToken r) @ ''&stream=user''"

text \<open>
  The local function \<open>reconnect\<close> of session \<open>cid\<close>. The result says whether
  \<open>new WebSocket\<close> threw; when it does, the heartbeat is already cleared, and no
  socket and no registry entry are made.
\<close>

definition reconnect :: "environment \<Rightarrow> nat \<Rightarrow> state \<Rightarrow> js_error option \<times> state" where
  "reconnect env cid s =
     (let r = registration (sessions s ! cid);
          s1 = clearInterval (heartbeat (sessions s ! cid)) s;
          ws = \<lparr>ws_url = stream_url env r, ws_state = CONNECTING, ws_session = cid\<rparr>
      in if \<not> url_accepted env (stream_url env r) then (Some InvalidUrl, s1)
         else (None, s1\<lparr>sockets := sockets s1 @ [ws],
                         wsStorage := (wsStorage s1)(ws_key r \<mapsto> length (sockets s1))\<rparr>))"

datatype ret = RTrue | RFalse | RUndefined

text \<open>\<open>connectForUser\<close> returns a value (\<open>Inr\<close>) or lets the exception of \<open>reconnect\<close> through.\<close>

definition connectForUser ::
  "environment \<Rightarrow> registration \<Rightarrow> state \<Rightarrow> (js_error + ret) \<times> state" where
  "connectForUser env r s =
     (if wsStorage s (ws_key r) \<noteq> None then (Inr RTrue, s)
      else
        let cid = length (sessions s);
            s1 = s\<lparr>sessions := sessions s @
                    [\<lparr>registration = r, heartbeat = None, last_check = 0\<rparr>]\<rparr>
        in case checkAppId env (appId r) (appSecret r) of
             Some err \<Rightarrow> (Inr RFalse, close cid s1)
           | None \<Rightarrow>
               (case checkInstanceUrl env (instanceUrl r) of
                  Some err \<Rightarrow> (Inr RFalse, close cid s1)
                | None \<Rightarrow>
                    (case reconnect env cid s1 of
                       (Some exn, s2) \<Rightarrow> (Inl exn, s2)
                     | (None, s2) \<Rightarrow> (Inr RUndefined, s2))))"

section \<open>The handlers of a session\<close>

text \<open>The handler of \<open>open\<close> on socket \<open>sid\<close>, attached by session \<open>cid\<close>.\<close>

definition onOpen :: "nat \<Rightarrow> nat \<Rightarrow> state \<Rightarrow> state" where
  "onOpen cid sid s =
     (if ws_state (sockets s ! sid) \<noteq> OPEN then s
      else s\<lparr>intervals := intervals s @
                 [\<lparr>iv_session = cid, iv_socket = sid, iv_active = True\<rparr>],
             sessions := (sessions s)[cid := (sessions s ! cid)
                                        \<lparr>heartbeat := Some (length (intervals s))\<rparr>]\<rparr>)"

definition onError :: "nat \<Rightarrow> state \<Rightarrow> state" where
  "onError cid s = s\<lparr>timeouts := timeouts s @ [(5000, cid)]\<rparr>"

definition onClose :: "nat \<Rightarrow> int \<Rightarrow> state \<Rightarrow> state" where
  "onClose cid code s =
     (if code = 1000 then close cid s
      else s\<lparr>timeouts := timeouts s @ [(5000, cid)]\<rparr>)"

text \<open>
  The function given to \<open>setInterval\<close>, run at clock time \<open>now\<close> (milliseconds).
  \<open>ws.ping()\<close> changes nothing that is modelled. When the database does not answer,
  the promise of \<open>findOne\<close> rejects and the \<open>then\<close> part never runs.
\<close>

definition heartbeat_tick :: "nat \<Rightarrow> int \<Rightarrow> state \<Rightarrow> state" where
  "heartbeat_tick cid now s =
     (if now - last_check (sessions s ! cid) \<ge> 86400000 then
        let r = registration (sessions s ! cid);
            s1 = s\<lparr>sessions := (sessions s)[cid := (sessions s ! cid)\<lparr>last_check := now\<rparr>],
                   storeReads := storeReads s @ [now]\<rparr>
        in if \<not> storeUp s1 then s1\<lparr>rejections := Suc (rejections s1)\<rparr>
           else case findOne (instanceUrl r) (appId r) (tag r) (store s1) of
                  None \<Rightarrow> close cid s1
                | Some found \<Rightarrow>
                    if now - lastUpdate found \<ge> 86400000 * 3 then close cid s1 else s1
      else s)"

section \<open>Events\<close>

text \<open>
  What the event loop delivers: a socket opens at a clock time (which the handler of
  \<open>open\<close> does not read), reports an error or closes with a code, a pending timeout
  (by position) comes up so many milliseconds after it was set, an interval (by handle)
  fires at a clock time. The library sets \<open>readyState\<close> before it calls the handler.
  A timeout does not fire before its delay has passed. Nothing is delivered to a process
  that has ended.
\<close>

datatype event =
    EvOpen nat int
  | EvError nat
  | EvClose nat int
  | EvTimeout nat nat
  | EvTick nat int

fun deliver :: "environment \<Rightarrow> state \<Rightarrow> event \<Rightarrow> state" where
  "deliver env s (EvOpen sid now) =
     (if sid < length (sockets s) \<and> ws_state (sockets s ! sid) = CONNECTING
      then onOpen (ws_session (sockets s ! sid)) sid
             (s\<lparr>sockets := (sockets s)[sid := (sockets s ! sid)\<lparr>ws_state := OPEN\<rparr>]\<rparr>)
      else s)"
| "deliver env s (EvError sid) =
     (if sid < length (sockets s) then onError (ws_session (sockets s ! sid)) s else s)"
| "deliver env s (EvClose sid code) =
     (if sid < length (sockets s) \<and> ws_state (sockets s ! sid) \<noteq> CLOSED
      then onClose (ws_session (sockets s ! sid)) code
             (s\<lparr>sockets := (sockets s)[sid := (sockets s ! sid)\<lparr>ws_state := CLOSED\<rparr>]\<rparr>)
      else s)"
| "deliver env s (EvTimeout i elapsed) =
     (if i < length (timeouts s) \<and> fst (timeouts s ! i) \<le> elapsed
      then case reconnect env (snd (timeouts s ! i))
                  (s\<lparr>timeouts := take i (timeouts s) @ drop (Suc i) (timeouts s)\<rparr>) of
             (Some exn, s1) \<Rightarrow> s1\<lparr>crashed := True\<rparr>
           | (None, s1) \<Rightarrow> s1
      else s)"
| "deliver env s (EvTick h now) =
     (if h < length (intervals s) \<and> iv_active (intervals s ! h)
      then heartbeat_tick (iv_session (intervals s ! h)) now s
      else s)"

definition step :: "environment \<Rightarrow> state \<Rightarrow> event \<Rightarrow> state" where
  "step env s ev = (if crashed s then s else deliver env s ev)"

definition run :: "environment \<Rightarrow> event list \<Rightarrow> state \<Rightarrow> state" where
  "run env evs s = foldl (step env) s evs"

section \<open>The HTTP handlers and the restore at start\<close>

record body =
  instance_url :: jsval
  access_token :: jsval
  app_id :: jsval
  app_secret :: jsval
  callback_url :: jsval
  tag_param :: jsval

text \<open>
  \<open>Registration.findOrCreate\<close> followed by \<open>model.update\<close> and \<open>connectForUser\<close>:
  the promise chain of \<open>/register\<close>, run to its end. When the database does not answer
  the \<open>catch\<close> logs and nothing else happens. An exception of \<open>connectForUser\<close>
  rejects the inner promise, which nobody catches.
\<close>

definition findOrCreate :: "jsval \<Rightarrow> jsval \<Rightarrow> jsval \<Rightarrow> state \<Rightarrow> registration \<times> state" where
  "findOrCreate instanceUrl' appId' tg s =
     (case findOne instanceUrl' appId' tg (store s) of
        Some model \<Rightarrow> (model, s)
      | None \<Rightarrow>
          let model = \<lparr>rid = nextId s, lastUpdate = 0, instanceUrl = instanceUrl',
                       accessToken = Null, appId = appId', appSecret = Null,
                       callbackUrl = Null, tag = tg\<rparr>
          in (model, s\<lparr>store := store s @ [model], nextId := Suc (nextId s)\<rparr>))"

definition register_then :: "environment \<Rightarrow> int \<Rightarrow> jsval \<Rightarrow> body \<Rightarrow> state \<Rightarrow> state" where
  "register_then env now instanceUrl' b s =
     (if \<not> storeUp s then s
      else
        let (model, s1) = findOrCreate instanceUrl' (app_id b) (tag_param b) s;
            model' = model\<lparr>lastUpdate := now, accessToken := access_token b,
                            callbackUrl := callback_url b, appSecret := app_secret b\<rparr>;
            s2 = s1\<lparr>store := map (\<lambda>x. if rid x = rid model then model' else x) (store s1)\<rparr>
        in case connectForUser env model' s2 of
             (Inl exn, s3) \<Rightarrow> s3\<lparr>rejections := Suc (rejections s3)\<rparr>
           | (Inr v, s3) \<Rightarrow> s3)"

text \<open>
  \<open>POST /register\<close> at clock time \<open>now\<close>. The answer is the status and text sent, or
  the error thrown by \<open>req.body.instance_url.toLowerCase()\<close> on a missing field.
\<close>

definition register :: "environment \<Rightarrow> int \<Rightarrow> body \<Rightarrow> state \<Rightarrow> (js_error + nat \<times> string) \<times> state" where
  "register env now b s =
     (case instance_url b of
        Str u \<Rightarrow>
          (case checkInstanceUrl env (Str (toLowerCase env u)) of
             Some err \<Rightarrow> (Inr (400, err), s)
           | None \<Rightarrow>
               (case checkAccessToken (access_token b) of
                  Some err \<Rightarrow> (Inr (400, err), s)
                | None \<Rightarrow>
                    (case checkAppId env (app_id b) (app_secret b) of
                       Some err \<Rightarrow> (Inr (400, err), s)
                     | None \<Rightarrow>
                         (Inr (202, ''Accepted''),
                          register_then env now (Str (toLowerCase env u)) b s))))
      | Undefined \<Rightarrow> (Inl TypeError, s)
      | Null \<Rightarrow> (Inl TypeError, s))"

definition unregister :: "environment \<Rightarrow> body \<Rightarrow> state \<Rightarrow> (js_error + nat \<times> string) \<times> state" where
  "unregister env b s =
     (case instance_url b of
        Str u \<Rightarrow>
          (case checkAppId env (app_id b) (app_secret b) of
             Some err \<Rightarrow> (Inr (400, err), s)
           | None \<Rightarrow>
               (Inr (202, ''Accepted''),
                if \<not> storeUp s then s
                else case findOne (Str (toLowerCase env u)) (app_id b) (tag_param b) (store s) of
                       Some r \<Rightarrow> disconnectForUser r s
                     | None \<Rightarrow> s))
      | Undefined \<Rightarrow> (Inl TypeError, s)
      | Null \<Rightarrow> (Inl TypeError, s))"

text \<open>
  \<open>Registration.findAll()\<close> at start, then \<open>connectForUser\<close> on every row that
  was found, in order; an exception of \<open>connectForUser\<close> ends the \<open>forEach\<close> and
  rejects the promise. When the database does not answer, the promise rejects as well.
  Nobody catches either.
\<close>

fun connect_each :: "environment \<Rightarrow> registration list \<Rightarrow> state \<Rightarrow> state" where
  "connect_each env [] s = s"
| "connect_each env (r # rs) s =
     (case connectForUser env r s of
        (Inl exn, s1) \<Rightarrow> s1\<lparr>rejections := Suc (rejections s1)\<rparr>
      | (Inr v, s1) \<Rightarrow> connect_each env rs s1)"

definition restore :: "environment \<Rightarrow> state \<Rightarrow> state" where
  "restore env s =
     (if \<not> storeUp s then s\<lparr>rejections := Suc (rejections s)\<rparr>
      else connect_each env (store s) s)"

section \<open>An environment and a registration to compute with\<close>

text \<open>
  One app, any instance. \<open>ascii_lower\<close> is \<open>toLowerCase\<close> on strings of ASCII
  characters (a \<open>char\<close> is a byte); \<open>known_scheme\<close> accepts an address with one
  of the four schemes and no fragment.
\<close>

definition ascii_lower :: "string \<Rightarrow> string" where
  "ascii_lower s =
     map (\<lambda>c. if 65 \<le> (of_char c :: nat) \<and> (of_char c :: nat) \<le> 90
              then char_of ((of_char c :: nat) + 32) else c) s"

definition known_scheme :: "string \<Rightarrow> bool" where
  "known_scheme u =
     ((take 8 u = ''https://'' \<or> take 7 u = ''http://'' \<or> take 6 u = ''wss://'' \<or>
       take 5 u = ''ws://'') \<and> CHR ''#'' \<notin> set u)"

definition env0 :: environment where
  "env0 = \<lparr>appMap = [''app1'' \<mapsto> \<lparr>secret = Str ''s3cret''\<rparr>],
           instanceMap = [''*'' \<mapsto> \<lparr>replaceUrl = Undefined\<rparr>],
           toLowerCase = ascii_lower, url_accepted = known_scheme\<rparr>"

definition reg0 :: registration where
  "reg0 = \<lparr>rid = 1, lastUpdate = 1700000000000,
           instanceUrl = Str ''https://example.social'', accessToken = Str ''abc123'',
           appId = Str ''app1'', appSecret = Str ''s3cret'',
           callbackUrl = Str ''https://client/cb'', tag = Str ''t1''\<rparr>"

definition init :: state where
  "init = \<lparr>wsStorage = Map.empty, sockets = [], sessions = [], intervals = [],
           timeouts = [], store = [], nextId = 1, storeUp = True, rejections = 0,
           storeReads = [], crashed = False\<rparr>"

text \<open>
  Two rows with different (instanceUrl, appId, tag), both accepted by \<open>env0\<close>.
\<close>

definition reg_a :: registration where
  "reg_a = reg0\<lparr>rid := 1, instanceUrl := Str ''https://h'', tag := Str ''app1:t''\<rparr>"

definition reg_b :: registration where
  "reg_b = reg0\<lparr>rid := 2, instanceUrl := Str ''https://h:app1'', tag := Str ''t''\<rparr>"

text \<open>
  A row with no session; the session started for it; the same after its socket opened;
  and the open session when the database does not answer.
\<close>

definition stored_only :: state where
  "stored_only = init\<lparr>store := [reg0]\<rparr>"

definition started :: state where
  "started = snd (connectForUser env0 reg0 stored_only)"

definition opened :: state where
  "opened = step env0 started (EvOpen 0 1700000000000)"

definition opened_db_down :: state where
  "opened_db_down = opened\<lparr>storeUp := False\<rparr>"

text \<open>A stored row and a request whose token has a character of the forbidden four.\<close>

definition reg_bad_token :: registration where
  "reg_bad_token = reg0\<lparr>accessToken := Str ''a/b''\<rparr>"

definition body_bad_token :: body where
  "body_bad_token = \<lparr>instance_url = Str ''https://Example.social'', access_token = Str ''a/b'',
                      app_id = Str ''app1'', app_secret = Str ''s3cret'',
                      callback_url = Str ''https://client/cb'', tag_param = Str ''t1''\<rparr>"

definition body_no_token :: body where
  "body_no_token = body_bad_token\<lparr>access_token := Undefined\<rparr>"

text \<open>
  The session of \<open>reg0\<close> after its first socket failed (an error, then a close with
  code 1006), both timeouts fired and both new sockets opened.
\<close>

definition two_open :: state where
  "two_open =
     run env0 [EvError 0, EvClose 0 1006, EvTimeout 0 5000, EvTimeout 0 5000,
               EvOpen 1 1700000006000, EvOpen 2 1700000006000] started"

section \<open>Properties\<close>

subsection \<open>The example environment\<close>

lemma checkAppId_env0: "checkAppId env0 (Str ''app1'') (Str ''s3cret'') = None"
  by (simp add: checkAppId_def appMap_at_def index_object_def env0_def)

lemma checkInstanceUrl_env0: "truthy u \<Longrightarrow> checkInstanceUrl env0 u = None"
  by (simp add: checkInstanceUrl_def instanceMap_at_def index_object_def env0_def
      split: option.splits)

lemma getReplaceUrl_env0: "getReplaceUrl env0 u = u"
  by (simp add: getReplaceUrl_def instanceMap_at_def index_object_def env0_def
      split: option.splits)

lemma stream_url_env0:
  "stream_url env0 r =
     render (instanceUrl r) @ ''/api/v1/streaming/?access_token='' @ render (accessToken r) @
     ''&stream=user''"
  by (simp add: stream_url_def getReplaceUrl_env0)

lemma url_accepted_env0: "url_accepted env0 = known_scheme"
  by (simp add: env0_def)

lemma reg0_fields:
  "rid reg0 = 1" "lastUpdate reg0 = 1700000000000"
  "instanceUrl reg0 = Str ''https://example.social''" "accessToken reg0 = Str ''abc123''"
  "appId reg0 = Str ''app1''" "appSecret reg0 = Str ''s3cret''"
  "callbackUrl reg0 = Str ''https://client/cb''" "tag reg0 = Str ''t1''"
  by (simp_all add: reg0_def)

lemma stream_url_reg0:
  "stream_url env0 reg0 =
     ''https://example.social/api/v1/streaming/?access_token=abc123&stream=user''"
  by (simp add: stream_url_env0 reg0_fields)

lemma accepted_reg0: "url_accepted env0 (stream_url env0 reg0)"
  by (simp add: stream_url_reg0 url_accepted_env0 known_scheme_def)

subsection \<open>Frames and the callback\<close>

text \<open>
  Claim C1. For a frame that parses to a value other than \<open>null\<close>: when its
  \<open>event\<close> is the string \<open>notification\<close>, \<open>onMessage\<close> makes exactly one POST, to
  the registration's \<open>callbackUrl\<close>, whose body is built from \<open>instanceUrl\<close>,
  \<open>tag\<close>, \<open>appId\<close> and the frame's \<open>payload\<close> as parsed, with the header
  \<open>Content-Type: application/json\<close>; for any other \<open>event\<close> (or none) it makes no
  call and returns without error.
\<close>

theorem onMessage_forwards_notifications_only:
  "js \<noteq> JNull \<Longrightarrow>
   onMessage r (Some js) =
     Inr (if property ''event'' js = Some (JStr ''notification'')
          then [\<lparr>post_url = callbackUrl r,
                  post_body = \<lparr>m_instanceUrl = instanceUrl r, m_tag = tag r,
                               m_appId = appId r, m_payload = property ''payload'' js\<rparr>,
                  post_headers = [(''Content-Type'', ''application/json'')]\<rparr>]
          else [])"
  by (simp add: onMessage_def)

theorem onMessage_forwards_notifications_only_witness:
  "JObj [(''event'', JStr ''notification''), (''payload'', JObj [(''id'', JNum (42::int))])] \<noteq> JNull \<and>
   onMessage reg0 (Some (JObj [(''event'', JStr ''notification''),
                               (''payload'', JObj [(''id'', JNum (42::int))])])) =
     Inr [\<lparr>post_url = Str ''https://client/cb'',
            post_body = \<lparr>m_instanceUrl = Str ''https://example.social'', m_tag = Str ''t1'',
                         m_appId = Str ''app1'',
                         m_payload = Some (JObj [(''id'', JNum 42)])\<rparr>,
            post_headers = [(''Content-Type'', ''application/json'')]\<rparr>] \<and>
   onMessage reg0 (Some (JObj [(''event'', JStr ''update''), (''payload'', JNum (1::int))])) = Inr []"
  using onMessage_forwards_notifications_only
          [of "JObj [(''event'', JStr ''notification''), (''payload'', JObj [(''id'', JNum (42::int))])]" reg0]
        onMessage_forwards_notifications_only
          [of "JObj [(''event'', JStr ''update''), (''payload'', JNum (1::int))]" reg0]
  by (simp add: reg0_def)

subsection \<open>Starting a session\<close>

lemma reconnect_accepted:
  "url_accepted env (stream_url env (registration (sessions s ! cid))) \<Longrightarrow>
   reconnect env cid s =
     (None, (clearInterval (heartbeat (sessions s ! cid)) s)
              \<lparr>sockets := sockets s @
                 [\<lparr>ws_url = stream_url env (registration (sessions s ! cid)),
                   ws_state = CONNECTING, ws_session = cid\<rparr>],
               wsStorage := (wsStorage s)(ws_key (registration (sessions s ! cid)) \<mapsto>
                                           length (sockets s))\<rparr>)"
  by (simp add: reconnect_def Let_def clearInterval_def split: option.splits)

lemma connectForUser_fresh:
  assumes "wsStorage s (ws_key r) = None" and "checkAppId env (appId r) (appSecret r) = None"
    and "checkInstanceUrl env (instanceUrl r) = None" and "url_accepted env (stream_url env r)"
  shows "connectForUser env r s =
     (Inr RUndefined,
      s\<lparr>sessions := sessions s @ [\<lparr>registration = r, heartbeat = None, last_check = 0\<rparr>],
        sockets := sockets s @
          [\<lparr>ws_url = stream_url env r, ws_state = CONNECTING, ws_session = length (sessions s)\<rparr>],
        wsStorage := (wsStorage s)(ws_key r \<mapsto> length (sockets s))\<rparr>)"
  using assms by (simp add: connectForUser_def Let_def reconnect_accepted clearInterval_def)

lemma connectForUser_init:
  assumes "appId r = Str ''app1''" and "appSecret r = Str ''s3cret''"
    and "truthy (instanceUrl r)" and "known_scheme (stream_url env0 r)"
  shows "connectForUser env0 r init =
     (Inr RUndefined,
      init\<lparr>sessions := [\<lparr>registration = r, heartbeat = None, last_check = 0\<rparr>],
           sockets := [\<lparr>ws_url = stream_url env0 r, ws_state = CONNECTING, ws_session = 0\<rparr>],
           wsStorage := [ws_key r \<mapsto> 0]\<rparr>)"
proof -
  have "connectForUser env0 r init =
     (Inr RUndefined,
      init\<lparr>sessions := sessions init @ [\<lparr>registration = r, heartbeat = None, last_check = 0\<rparr>],
        sockets := sockets init @
          [\<lparr>ws_url = stream_url env0 r, ws_state = CONNECTING, ws_session = length (sessions init)\<rparr>],
        wsStorage := (wsStorage init)(ws_key r \<mapsto> length (sockets init))\<rparr>)"
    by (rule connectForUser_fresh)
      (simp_all add: assms init_def checkAppId_env0 checkInstanceUrl_env0 url_accepted_env0)
  then show ?thesis by (simp add: init_def)
qed

text \<open>
  Claim C6. When \<open>wsStorage\<close> already has an entry under the registration's key,
  \<open>connectForUser\<close> returns \<open>true\<close> and changes nothing: no socket is made, the
  entry, the sessions, the timers and the table are as before.
\<close>

theorem connectForUser_already_registered:
  "wsStorage s (ws_key r) \<noteq> None \<Longrightarrow> connectForUser env r s = (Inr RTrue, s)"
  by (simp add: connectForUser_def)

theorem connectForUser_already_registered_witness:
  "wsStorage (snd (connectForUser env0 reg0 init)) (ws_key reg0) \<noteq> None \<and>
   connectForUser env0 reg0 (snd (connectForUser env0 reg0 init)) =
     (Inr RTrue, snd (connectForUser env0 reg0 init))"
proof -
  have h: "wsStorage (snd (connectForUser env0 reg0 init)) (ws_key reg0) \<noteq> None"
    by (simp add: connectForUser_init reg0_fields stream_url_reg0 known_scheme_def)
  show ?thesis using h connectForUser_already_registered [OF h, of env0] by simp
qed

subsection \<open>The registry key\<close>

text \<open>
  Claim C10. The key \<open>instanceUrl + ":" + appId + ":" + tag\<close> does not tell every
  two registrations apart: \<open>reg_a\<close> and \<open>reg_b\<close> differ in \<open>instanceUrl\<close> and
  \<open>tag\<close> and have the same key, and once \<open>reg_a\<close> is connected,
  \<open>connectForUser\<close> on \<open>reg_b\<close> finds it "already registered" and makes no socket.
\<close>

theorem ws_key_collision:
  "(instanceUrl reg_a, appId reg_a, tag reg_a) \<noteq> (instanceUrl reg_b, appId reg_b, tag reg_b) \<and>
   ws_key reg_a = ws_key reg_b \<and>
   connectForUser env0 reg_b (snd (connectForUser env0 reg_a init)) =
     (Inr RTrue, snd (connectForUser env0 reg_a init))"
proof -
  have a: "connectForUser env0 reg_a init =
     (Inr RUndefined,
      init\<lparr>sessions := [\<lparr>registration = reg_a, heartbeat = None, last_check = 0\<rparr>],
           sockets := [\<lparr>ws_url = stream_url env0 reg_a, ws_state = CONNECTING, ws_session = 0\<rparr>],
           wsStorage := [ws_key reg_a \<mapsto> 0]\<rparr>)"
    by (rule connectForUser_init)
      (simp_all add: reg_a_def reg0_def stream_url_env0 known_scheme_def)
  have k: "ws_key reg_a = ws_key reg_b"
    by (simp add: reg_a_def reg_b_def reg0_def ws_key_def key_of_def)
  have d: "(instanceUrl reg_a, appId reg_a, tag reg_a) \<noteq> (instanceUrl reg_b, appId reg_b, tag reg_b)"
    by (simp add: reg_a_def reg_b_def reg0_def)
  define after_a where "after_a = snd (connectForUser env0 reg_a init)"
  have "wsStorage after_a (ws_key reg_b) \<noteq> None"
    by (simp add: after_a_def a k [symmetric])
  then have "connectForUser env0 reg_b after_a = (Inr RTrue, after_a)"
    by (simp add: connectForUser_def)
  with k d show ?thesis by (simp add: after_a_def)
qed

subsection \<open>What stopping a session changes\<close>

lemma rid_filter: "rid r \<notin> rid ` set (filter (\<lambda>x. rid x \<noteq> rid r) rows)"
  by auto

lemma wsStorage_disconnectForUser: "wsStorage (disconnectForUser r s) (ws_key r) = None"
  by (simp add: disconnectForUser_def destroy_def ws_close_def split: option.splits)

lemma store_disconnectForUser:
  "storeUp s \<Longrightarrow> store (disconnectForUser r s) = filter (\<lambda>x. rid x \<noteq> rid r) (store s)"
  by (simp add: disconnectForUser_def destroy_def ws_close_def split: option.splits)

lemma store_disconnectForUser_down:
  "\<not> storeUp s \<Longrightarrow> store (disconnectForUser r s) = store s"
  by (simp add: disconnectForUser_def destroy_def ws_close_def split: option.splits)

lemma sockets_disconnectForUser:
  "wsStorage s (ws_key r) = Some sid \<Longrightarrow> sid < length (sockets s) \<Longrightarrow>
   \<not> live (sockets (disconnectForUser r s) ! sid)"
  by (simp add: disconnectForUser_def destroy_def ws_close_def live_def)

lemma sessions_disconnectForUser: "sessions (disconnectForUser r s) = sessions s"
  by (simp add: disconnectForUser_def destroy_def ws_close_def split: option.splits)

lemma intervals_disconnectForUser: "intervals (disconnectForUser r s) = intervals s"
  by (simp add: disconnectForUser_def destroy_def ws_close_def split: option.splits)

lemma storeReads_disconnectForUser: "storeReads (disconnectForUser r s) = storeReads s"
  by (simp add: disconnectForUser_def destroy_def ws_close_def split: option.splits)

lemma clearInterval_fields:
  "wsStorage (clearInterval h s) = wsStorage s"
  "sockets (clearInterval h s) = sockets s"
  "sessions (clearInterval h s) = sessions s"
  "store (clearInterval h s) = store s"
  "storeUp (clearInterval h s) = storeUp s"
  "storeReads (clearInterval h s) = storeReads s"
  "timeouts (clearInterval h s) = timeouts s"
  by (simp_all add: clearInterval_def split: option.splits)

lemma clearInterval_inactive:
  "h < length (intervals s) \<Longrightarrow> \<not> iv_active (intervals (clearInterval (Some h) s) ! h)"
  by (simp add: clearInterval_def)

lemma close_wsStorage:
  "wsStorage (close cid s) (ws_key (registration (sessions s ! cid))) = None"
  by (simp add: close_def wsStorage_disconnectForUser)

lemma close_store:
  "storeUp s \<Longrightarrow>
   store (close cid s) = filter (\<lambda>x. rid x \<noteq> rid (registration (sessions s ! cid))) (store s)"
  by (simp add: close_def store_disconnectForUser clearInterval_fields)

lemma close_sockets:
  "wsStorage s (ws_key (registration (sessions s ! cid))) = Some sid \<Longrightarrow>
   sid < length (sockets s) \<Longrightarrow> \<not> live (sockets (close cid s) ! sid)"
  by (simp add: close_def sockets_disconnectForUser clearInterval_fields)

lemma close_sessions: "sessions (close cid s) = sessions s"
  by (simp add: close_def sessions_disconnectForUser clearInterval_fields)

lemma close_storeReads: "storeReads (close cid s) = storeReads s"
  by (simp add: close_def storeReads_disconnectForUser clearInterval_fields)

lemma close_heartbeat:
  "heartbeat (sessions s ! cid) = Some h \<Longrightarrow> h < length (intervals s) \<Longrightarrow>
   \<not> iv_active (intervals (close cid s) ! h)"
  by (simp add: close_def intervals_disconnectForUser clearInterval_inactive)

subsection \<open>The example states, computed\<close>

lemma started_eq:
  "started =
     \<lparr>wsStorage = [ws_key reg0 \<mapsto> 0],
      sockets = [\<lparr>ws_url = stream_url env0 reg0, ws_state = CONNECTING, ws_session = 0\<rparr>],
      sessions = [\<lparr>registration = reg0, heartbeat = None, last_check = 0\<rparr>],
      intervals = [], timeouts = [], store = [reg0], nextId = 1, storeUp = True,
      rejections = 0, storeReads = [], crashed = False\<rparr>"
proof -
  have "connectForUser env0 reg0 stored_only =
     (Inr RUndefined,
      stored_only\<lparr>sessions := sessions stored_only @
                      [\<lparr>registration = reg0, heartbeat = None, last_check = 0\<rparr>],
        sockets := sockets stored_only @
          [\<lparr>ws_url = stream_url env0 reg0, ws_state = CONNECTING,
            ws_session = length (sessions stored_only)\<rparr>],
        wsStorage := (wsStorage stored_only)(ws_key reg0 \<mapsto> length (sockets stored_only))\<rparr>)"
    by (rule connectForUser_fresh)
      (simp_all add: stored_only_def init_def checkAppId_env0 checkInstanceUrl_env0 accepted_reg0
        reg0_fields)
  then show ?thesis
    by (simp add: started_def stored_only_def init_def)
qed

lemma opened_eq:
  "opened =
     \<lparr>wsStorage = [ws_key reg0 \<mapsto> 0],
      sockets = [\<lparr>ws_url = stream_url env0 reg0, ws_state = OPEN, ws_session = 0\<rparr>],
      sessions = [\<lparr>registration = reg0, heartbeat = Some 0, last_check = 0\<rparr>],
      intervals = [\<lparr>iv_session = 0, iv_socket = 0, iv_active = True\<rparr>],
      timeouts = [], store = [reg0], nextId = 1, storeUp = True,
      rejections = 0, storeReads = [], crashed = False\<rparr>"
  by (simp add: opened_def started_eq onOpen_def step_def)

lemma after_failure_eq:
  "run env0 [EvError 0, EvClose 0 1006, EvTimeout 0 5000, EvTimeout 0 5000] started =
     \<lparr>wsStorage = [ws_key reg0 \<mapsto> 2],
      sockets = [\<lparr>ws_url = stream_url env0 reg0, ws_state = CLOSED, ws_session = 0\<rparr>,
                 \<lparr>ws_url = stream_url env0 reg0, ws_state = CONNECTING, ws_session = 0\<rparr>,
                 \<lparr>ws_url = stream_url env0 reg0, ws_state = CONNECTING, ws_session = 0\<rparr>],
      sessions = [\<lparr>registration = reg0, heartbeat = None, last_check = 0\<rparr>],
      intervals = [], timeouts = [], store = [reg0], nextId = 1, storeUp = True,
      rejections = 0, storeReads = [], crashed = False\<rparr>"
  by (simp add: run_def step_def started_eq onError_def onClose_def reconnect_accepted
      accepted_reg0 clearInterval_def numeral_2_eq_2)

lemma two_open_eq:
  "two_open =
     \<lparr>wsStorage = [ws_key reg0 \<mapsto> 2],
      sockets = [\<lparr>ws_url = stream_url env0 reg0, ws_state = CLOSED, ws_session = 0\<rparr>,
                 \<lparr>ws_url = stream_url env0 reg0, ws_state = OPEN, ws_session = 0\<rparr>,
                 \<lparr>ws_url = stream_url env0 reg0, ws_state = OPEN, ws_session = 0\<rparr>],
      sessions = [\<lparr>registration = reg0, heartbeat = Some 1, last_check = 0\<rparr>],
      intervals = [\<lparr>iv_session = 0, iv_socket = 1, iv_active = True\<rparr>,
                   \<lparr>iv_session = 0, iv_socket = 2, iv_active = True\<rparr>],
      timeouts = [], store = [reg0], nextId = 1, storeUp = True,
      rejections = 0, storeReads = [], crashed = False\<rparr>"
proof -
  have "two_open =
      step env0 (step env0
        (run env0 [EvError 0, EvClose 0 1006, EvTimeout 0 5000, EvTimeout 0 5000] started)
        (EvOpen 1 1700000006000)) (EvOpen 2 1700000006000)"
    by (simp add: two_open_def run_def)
  then show ?thesis
    by (simp add: after_failure_eq step_def onOpen_def)
qed

subsection \<open>Closing\<close>

text \<open>
  Claim C3, as the code has it. For an open socket of a session with registration
  \<open>r\<close>: a close event with code 1000 always removes the key from \<open>wsStorage\<close> and
  calls \<open>destroy\<close> on the registration; the row with its primary key leaves the table
  when the database answers and stays when it does not. A close event with any other
  code leaves the table and \<open>wsStorage\<close> as they are and sets one timeout of 5000
  milliseconds for \<open>reconnect\<close>: before 5000 milliseconds have passed the timeout does
  nothing, and when it fires (the constructor accepting the session's address)
  \<open>reconnect\<close> makes a new connecting socket for the same registration and puts it
  under the key.
  The counterexample: the open session of \<open>reg0\<close>, the database not answering; after
  the close with code 1000 the key is gone and the row is still in the table.
\<close>

theorem close_event_normal_or_reconnect:
  assumes "\<not> crashed s" and "sid < length (sockets s)" and "ws_state (sockets s ! sid) = OPEN"
    and "ws_session (sockets s ! sid) = cid" and "registration (sessions s ! cid) = r"
  shows "wsStorage (step env s (EvClose sid 1000)) (ws_key r) = None \<and>
         store (step env s (EvClose sid 1000)) =
           (if storeUp s then filter (\<lambda>x. rid x \<noteq> rid r) (store s) else store s) \<and>
         (code \<noteq> 1000 \<longrightarrow>
            store (step env s (EvClose sid code)) = store s \<and>
            wsStorage (step env s (EvClose sid code)) = wsStorage s \<and>
            timeouts (step env s (EvClose sid code)) = timeouts s @ [(5000, cid)] \<and>
            (elapsed < 5000 \<longrightarrow>
               step env (step env s (EvClose sid code)) (EvTimeout (length (timeouts s)) elapsed) =
                 step env s (EvClose sid code)) \<and>
            (5000 \<le> elapsed \<and> url_accepted env (stream_url env r) \<longrightarrow>
               sockets (step env (step env s (EvClose sid code))
                          (EvTimeout (length (timeouts s)) elapsed)) =
                 (sockets s)[sid := (sockets s ! sid)\<lparr>ws_state := CLOSED\<rparr>] @
                 [\<lparr>ws_url = stream_url env r, ws_state = CONNECTING, ws_session = cid\<rparr>] \<and>
               wsStorage (step env (step env s (EvClose sid code))
                            (EvTimeout (length (timeouts s)) elapsed)) =
                 (wsStorage s)(ws_key r \<mapsto> length (sockets s)) \<and>
               timeouts (step env (step env s (EvClose sid code))
                           (EvTimeout (length (timeouts s)) elapsed)) = timeouts s \<and>
               store (step env (step env s (EvClose sid code))
                        (EvTimeout (length (timeouts s)) elapsed)) = store s))"
proof -
  let ?s1 = "s\<lparr>sockets := (sockets s)[sid := (sockets s ! sid)\<lparr>ws_state := CLOSED\<rparr>]\<rparr>"
  let ?s2 = "?s1\<lparr>timeouts := timeouts s @ [(5000, cid)]\<rparr>"
  let ?s3 = "?s1\<lparr>timeouts := timeouts s\<rparr>"
  have st: "step env s (EvClose sid c) = onClose cid c ?s1" for c
    using assms by (simp add: step_def)
  have r1: "registration (sessions ?s1 ! cid) = r"
    using assms by simp
  have a: "wsStorage (onClose cid 1000 ?s1) (ws_key r) = None"
    using close_wsStorage [of cid ?s1] r1 by (simp add: onClose_def)
  have b: "store (onClose cid 1000 ?s1) =
      (if storeUp s then filter (\<lambda>x. rid x \<noteq> rid r) (store s) else store s)"
    using r1 by (simp add: onClose_def close_def store_disconnectForUser
        store_disconnectForUser_down clearInterval_fields)
  have c: "onClose cid code ?s1 = ?s2" if "code \<noteq> 1000"
    using that by (simp add: onClose_def)
  have early: "step env ?s2 (EvTimeout (length (timeouts s)) elapsed) = ?s2" if "elapsed < 5000"
    using that assms(1) by (simp add: step_def)
  have fire: "step env ?s2 (EvTimeout (length (timeouts s)) elapsed) =
      (clearInterval (heartbeat (sessions s ! cid)) ?s3)
        \<lparr>sockets := sockets ?s1 @
           [\<lparr>ws_url = stream_url env r, ws_state = CONNECTING, ws_session = cid\<rparr>],
         wsStorage := (wsStorage s)(ws_key r \<mapsto> length (sockets ?s1))\<rparr>"
    if "5000 \<le> elapsed" "url_accepted env (stream_url env r)"
  proof -
    have "reconnect env cid ?s3 =
        (None, (clearInterval (heartbeat (sessions ?s3 ! cid)) ?s3)
                 \<lparr>sockets := sockets ?s3 @
                    [\<lparr>ws_url = stream_url env (registration (sessions ?s3 ! cid)),
                      ws_state = CONNECTING, ws_session = cid\<rparr>],
                  wsStorage := (wsStorage ?s3)(ws_key (registration (sessions ?s3 ! cid)) \<mapsto>
                                                length (sockets ?s3))\<rparr>)"
      by (rule reconnect_accepted) (simp add: assms(5) that(2))
    then show ?thesis
      using that(1) assms(1,5) by (simp add: step_def)
  qed
  show ?thesis
  proof (intro conjI impI)
    show "wsStorage (step env s (EvClose sid 1000)) (ws_key r) = None"
      unfolding st by (rule a)
    show "store (step env s (EvClose sid 1000)) =
           (if storeUp s then filter (\<lambda>x. rid x \<noteq> rid r) (store s) else store s)"
      unfolding st by (rule b)
  next
    assume n: "code \<noteq> 1000"
    show "store (step env s (EvClose sid code)) = store s"
      unfolding st c [OF n] by simp
    show "wsStorage (step env s (EvClose sid code)) = wsStorage s"
      unfolding st c [OF n] by simp
    show "timeouts (step env s (EvClose sid code)) = timeouts s @ [(5000, cid)]"
      unfolding st c [OF n] by simp
    {
      assume "elapsed < 5000"
      then show "step env (step env s (EvClose sid code)) (EvTimeout (length (timeouts s)) elapsed) =
                 step env s (EvClose sid code)"
        unfolding st c [OF n] by (rule early)
    }
    {
      assume e: "5000 \<le> elapsed \<and> url_accepted env (stream_url env r)"
      then have f: "step env ?s2 (EvTimeout (length (timeouts s)) elapsed) =
        (clearInterval (heartbeat (sessions s ! cid)) ?s3)
          \<lparr>sockets := sockets ?s1 @
             [\<lparr>ws_url = stream_url env r, ws_state = CONNECTING, ws_session = cid\<rparr>],
           wsStorage := (wsStorage s)(ws_key r \<mapsto> length (sockets ?s1))\<rparr>"
        using fire by blast
      show "sockets (step env (step env s (EvClose sid code))
                          (EvTimeout (length (timeouts s)) elapsed)) =
                 (sockets s)[sid := (sockets s ! sid)\<lparr>ws_state := CLOSED\<rparr>] @
                 [\<lparr>ws_url = stream_url env r, ws_state = CONNECTING, ws_session = cid\<rparr>]"
        unfolding st c [OF n] f by simp
      show "wsStorage (step env (step env s (EvClose sid code))
                            (EvTimeout (length (timeouts s)) elapsed)) =
                 (wsStorage s)(ws_key r \<mapsto> length (sockets s))"
        unfolding st c [OF n] f by simp
      show "timeouts (step env (step env s (EvClose sid code))
                           (EvTimeout (length (timeouts s)) elapsed)) = timeouts s"
        unfolding st c [OF n] f by (simp add: clearInterval_fields)
      show "store (step env (step env s (EvClose sid code))
                        (EvTimeout (length (timeouts s)) elapsed)) = store s"
        unfolding st c [OF n] f by (simp add: clearInterval_fields)
    }
  qed
qed

theorem close_event_normal_or_reconnect_witness:
  "\<not> crashed opened \<and> 0 < length (sockets opened) \<and> ws_state (sockets opened ! 0) = OPEN \<and>
   ws_session (sockets opened ! 0) = 0 \<and> registration (sessions opened ! 0) = reg0 \<and>
   storeUp opened \<and> store opened = [reg0] \<and> url_accepted env0 (stream_url env0 reg0) \<and>
   wsStorage (step env0 opened (EvClose 0 1000)) (ws_key reg0) = None \<and>
   store (step env0 opened (EvClose 0 1000)) = [] \<and>
   store (step env0 opened (EvClose 0 1006)) = [reg0] \<and>
   wsStorage (step env0 opened (EvClose 0 1006)) = wsStorage opened \<and>
   timeouts (step env0 opened (EvClose 0 1006)) = [(5000, 0)] \<and>
   step env0 (step env0 opened (EvClose 0 1006)) (EvTimeout 0 4999) =
     step env0 opened (EvClose 0 1006) \<and>
   map ws_state (sockets (step env0 (step env0 opened (EvClose 0 1006)) (EvTimeout 0 5000))) =
     [CLOSED, CONNECTING] \<and>
   wsStorage (step env0 (step env0 opened (EvClose 0 1006)) (EvTimeout 0 5000)) (ws_key reg0) =
     Some 1 \<and>
   timeouts (step env0 (step env0 opened (EvClose 0 1006)) (EvTimeout 0 5000)) = []"
proof -
  have h: "\<not> crashed opened" "0 < length (sockets opened)" "ws_state (sockets opened ! 0) = OPEN"
    "ws_session (sockets opened ! 0) = 0" "registration (sessions opened ! 0) = reg0"
    by (simp_all add: opened_eq)
  have u: "storeUp opened" "store opened = [reg0]" "timeouts opened = []"
    "length (sockets opened) = 1"
    "sockets opened = [\<lparr>ws_url = stream_url env0 reg0, ws_state = OPEN, ws_session = 0\<rparr>]"
    by (simp_all add: opened_eq)
  show ?thesis
    using h u accepted_reg0
      close_event_normal_or_reconnect [OF h, of env0 1006 4999]
      close_event_normal_or_reconnect [OF h, of env0 1006 5000]
    by (simp add: reg0_fields)
qed

theorem close_1000_store_down_counterexample:
  "\<not> crashed opened_db_down \<and> ws_state (sockets opened_db_down ! 0) = OPEN \<and>
   registration (sessions opened_db_down ! ws_session (sockets opened_db_down ! 0)) = reg0 \<and>
   store opened_db_down = [reg0] \<and>
   wsStorage (step env0 opened_db_down (EvClose 0 1000)) (ws_key reg0) = None \<and>
   store (step env0 opened_db_down (EvClose 0 1000)) = [reg0] \<and>
   rejections (step env0 opened_db_down (EvClose 0 1000)) = 1"
  by (simp add: opened_db_down_def opened_eq step_def onClose_def close_def disconnectForUser_def
      destroy_def ws_close_def clearInterval_def)

subsection \<open>The expiry check\<close>

text \<open>
  What the check does when it runs (24 hours or more after \<open>last_check\<close>, the
  database answering): a row found for the session's (instanceUrl, appId, tag) with
  \<open>now - lastUpdate\<close> below 3 days (259200000 ms) leaves registry, sockets, timers and
  table as they are; with no row found, or \<open>now - lastUpdate\<close> 3 days or more,
  \<open>close\<close> runs: the key is removed, the socket registered under it is closed, the
  handle in \<open>heartbeat\<close> is cleared and the row with the session's own primary key is
  deleted.
\<close>

lemma heartbeat_tick_expiry:
  assumes "cid < length (sessions s)" and "storeUp s"
    and "now - last_check (sessions s ! cid) \<ge> 86400000"
    and "registration (sessions s ! cid) = r"
    and "findOne (instanceUrl r) (appId r) (tag r) (store s) = found"
  shows "((\<exists>row. found = Some row \<and> now - lastUpdate row < 259200000) \<longrightarrow>
            wsStorage (heartbeat_tick cid now s) = wsStorage s \<and>
            sockets (heartbeat_tick cid now s) = sockets s \<and>
            intervals (heartbeat_tick cid now s) = intervals s \<and>
            store (heartbeat_tick cid now s) = store s) \<and>
         (found = None \<or> (\<exists>row. found = Some row \<and> now - lastUpdate row \<ge> 259200000) \<longrightarrow>
            wsStorage (heartbeat_tick cid now s) (ws_key r) = None \<and>
            rid r \<notin> rid ` set (store (heartbeat_tick cid now s)) \<and>
            (\<forall>sid. wsStorage s (ws_key r) = Some sid \<and> sid < length (sockets s) \<longrightarrow>
                   \<not> live (sockets (heartbeat_tick cid now s) ! sid)) \<and>
            (\<forall>h. heartbeat (sessions s ! cid) = Some h \<and> h < length (intervals s) \<longrightarrow>
                 \<not> iv_active (intervals (heartbeat_tick cid now s) ! h)))"
proof -
  let ?s1 = "s\<lparr>sessions := (sessions s)[cid := (sessions s ! cid)\<lparr>last_check := now\<rparr>],
               storeReads := storeReads s @ [now]\<rparr>"
  have r1: "registration (sessions ?s1 ! cid) = r" and hb: "heartbeat (sessions ?s1 ! cid) = heartbeat (sessions s ! cid)"
    using assms(1,4) by simp_all
  have tick: "heartbeat_tick cid now s =
      (case found of None \<Rightarrow> close cid ?s1
       | Some row \<Rightarrow> if now - lastUpdate row \<ge> 259200000 then close cid ?s1 else ?s1)"
    using assms by (simp add: heartbeat_tick_def Let_def split: option.splits)
  have fresh: "heartbeat_tick cid now s = ?s1" if "found = Some row" "now - lastUpdate row < 259200000" for row
    using that by (simp add: tick)
  have gone: "heartbeat_tick cid now s = close cid ?s1"
    if "found = None \<or> (\<exists>row. found = Some row \<and> now - lastUpdate row \<ge> 259200000)"
    using that by (auto simp: tick)
  have c1: "wsStorage (close cid ?s1) (ws_key r) = None"
    using close_wsStorage [of cid ?s1] r1 by simp
  have c2: "rid r \<notin> rid ` set (store (close cid ?s1))"
    using close_store [of ?s1 cid] r1 assms(2) rid_filter [of r "store s"] by simp
  have c3: "\<not> live (sockets (close cid ?s1) ! sid)"
    if "wsStorage s (ws_key r) = Some sid" "sid < length (sockets s)" for sid
    using close_sockets [of ?s1 cid sid] r1 that by simp
  have c4: "\<not> iv_active (intervals (close cid ?s1) ! h)"
    if "heartbeat (sessions s ! cid) = Some h" "h < length (intervals s)" for h
    using close_heartbeat [of ?s1 cid h] hb that by simp
  show ?thesis
  proof (intro conjI impI)
    assume "\<exists>row. found = Some row \<and> now - lastUpdate row < 259200000"
    then obtain row where "found = Some row" "now - lastUpdate row < 259200000" by blast
    then have e: "heartbeat_tick cid now s = ?s1" by (rule fresh)
    show "wsStorage (heartbeat_tick cid now s) = wsStorage s" by (simp add: e)
    show "sockets (heartbeat_tick cid now s) = sockets s" by (simp add: e)
    show "intervals (heartbeat_tick cid now s) = intervals s" by (simp add: e)
    show "store (heartbeat_tick cid now s) = store s" by (simp add: e)
  next
    assume a: "found = None \<or> (\<exists>row. found = Some row \<and> now - lastUpdate row \<ge> 259200000)"
    have e: "heartbeat_tick cid now s = close cid ?s1" using a by (rule gone)
    show "wsStorage (heartbeat_tick cid now s) (ws_key r) = None" unfolding e by (rule c1)
    show "rid r \<notin> rid ` set (store (heartbeat_tick cid now s))" unfolding e by (rule c2)
    show "\<forall>sid. wsStorage s (ws_key r) = Some sid \<and> sid < length (sockets s) \<longrightarrow>
                   \<not> live (sockets (heartbeat_tick cid now s) ! sid)"
      unfolding e using c3 by blast
    show "\<forall>h. heartbeat (sessions s ! cid) = Some h \<and> h < length (intervals s) \<longrightarrow>
                 \<not> iv_active (intervals (heartbeat_tick cid now s) ! h)"
      unfolding e using c4 by blast
  qed
qed

text \<open>
  Claim C4. The check does not end a session that has more than one socket. In
  \<open>two_open\<close> the session of \<open>reg0\<close> has sockets 1 and 2 open and an interval
  running on each; the row is found and is exactly 3 days old at 1700259200000. The
  tick at that time deletes the row, removes the key, closes socket 2 (the one under
  the key) and clears interval 1 (the handle in \<open>heartbeat\<close>); socket 1 of the same
  session stays open and interval 0 stays active.
\<close>

theorem expiry_leaves_second_socket:
  "findOne (instanceUrl reg0) (appId reg0) (tag reg0) (store two_open) = Some reg0 \<and>
   1700259200000 - lastUpdate reg0 = 259200000 \<and>
   map ws_session (sockets two_open) = [0, 0, 0] \<and>
   map ws_state (sockets two_open) = [CLOSED, OPEN, OPEN] \<and>
   map iv_session (intervals two_open) = [0, 0] \<and>
   map iv_active (intervals two_open) = [True, True] \<and>
   store (step env0 two_open (EvTick 1 1700259200000)) = [] \<and>
   wsStorage (step env0 two_open (EvTick 1 1700259200000)) (ws_key reg0) = None \<and>
   map ws_state (sockets (step env0 two_open (EvTick 1 1700259200000))) =
     [CLOSED, OPEN, CLOSING] \<and>
   map iv_active (intervals (step env0 two_open (EvTick 1 1700259200000))) = [True, False] \<and>
   length (filter live (sockets (step env0 two_open (EvTick 1 1700259200000)))) = 1"
  by (simp add: two_open_eq step_def heartbeat_tick_def findOne_def close_def
      disconnectForUser_def destroy_def ws_close_def clearInterval_def live_def reg0_fields
      Let_def)

subsection \<open>Stopping a session\<close>

lemma disconnectForUser_absent:
  "wsStorage s (ws_key r) = None \<Longrightarrow> disconnectForUser r s = destroy r s"
  by (simp add: disconnectForUser_def)

text \<open>
  Claim C7, as the code has it. \<open>disconnectForUser\<close> leaves no entry under the key;
  a socket registered under the key is closed; whether or not there was an entry, the
  row with the registration's primary key is destroyed (when the database answers);
  with no entry, sockets and registry are untouched. The heartbeat is cleared by the
  session's own \<open>close\<close>, which then calls \<open>disconnectForUser\<close>.
  The counterexample: with a row in the table and an empty registry,
  \<open>disconnectForUser\<close> is not a no-op, it deletes the row; and called on an open
  session it leaves the heartbeat interval running.
\<close>

theorem disconnectForUser_effect:
  "wsStorage (disconnectForUser r s) (ws_key r) = None \<and>
   (\<forall>sid. wsStorage s (ws_key r) = Some sid \<and> sid < length (sockets s) \<longrightarrow>
          \<not> live (sockets (disconnectForUser r s) ! sid)) \<and>
   (storeUp s \<longrightarrow> rid r \<notin> rid ` set (store (disconnectForUser r s))) \<and>
   (wsStorage s (ws_key r) = None \<longrightarrow>
      sockets (disconnectForUser r s) = sockets s \<and>
      wsStorage (disconnectForUser r s) = wsStorage s) \<and>
   (\<forall>h. heartbeat (sessions s ! cid) = Some h \<and> h < length (intervals s) \<longrightarrow>
        \<not> iv_active (intervals (close cid s) ! h))"
proof (intro conjI allI impI)
  show "wsStorage (disconnectForUser r s) (ws_key r) = None"
    by (rule wsStorage_disconnectForUser)
next
  fix sid assume "wsStorage s (ws_key r) = Some sid \<and> sid < length (sockets s)"
  then show "\<not> live (sockets (disconnectForUser r s) ! sid)"
    by (simp add: sockets_disconnectForUser)
next
  assume "storeUp s"
  then show "rid r \<notin> rid ` set (store (disconnectForUser r s))"
    using rid_filter [of r "store s"] by (simp add: store_disconnectForUser)
next
  assume a: "wsStorage s (ws_key r) = None"
  show "sockets (disconnectForUser r s) = sockets s"
    by (simp add: disconnectForUser_absent [OF a] destroy_def)
  show "wsStorage (disconnectForUser r s) = wsStorage s"
    by (simp add: disconnectForUser_absent [OF a] destroy_def)
next
  fix h assume "heartbeat (sessions s ! cid) = Some h \<and> h < length (intervals s)"
  then show "\<not> iv_active (intervals (close cid s) ! h)"
    by (simp add: close_heartbeat)
qed

theorem disconnectForUser_effect_witness:
  "wsStorage opened (ws_key reg0) = Some 0 \<and> 0 < length (sockets opened) \<and> storeUp opened \<and>
   wsStorage (disconnectForUser reg0 opened) (ws_key reg0) = None \<and>
   \<not> live (sockets (disconnectForUser reg0 opened) ! 0) \<and>
   rid reg0 \<notin> rid ` set (store (disconnectForUser reg0 opened)) \<and>
   heartbeat (sessions opened ! 0) = Some 0 \<and> 0 < length (intervals opened) \<and>
   \<not> iv_active (intervals (close 0 opened) ! 0) \<and>
   wsStorage stored_only (ws_key reg0) = None \<and> storeUp stored_only \<and>
   sockets (disconnectForUser reg0 stored_only) = sockets stored_only \<and>
   wsStorage (disconnectForUser reg0 stored_only) = wsStorage stored_only \<and>
   rid reg0 \<notin> rid ` set (store (disconnectForUser reg0 stored_only))"
proof -
  have a: "wsStorage opened (ws_key reg0) = Some 0" "0 < length (sockets opened)"
    "storeUp opened" "heartbeat (sessions opened ! 0) = Some 0" "0 < length (intervals opened)"
    by (simp_all add: opened_eq)
  have b: "wsStorage stored_only (ws_key reg0) = None" "storeUp stored_only"
    by (simp_all add: stored_only_def init_def)
  show ?thesis
    using a b disconnectForUser_effect [of reg0 opened 0]
      disconnectForUser_effect [of reg0 stored_only 0]
    by simp
qed

theorem stop_absent_counterexample:
  "wsStorage stored_only (ws_key reg0) = None \<and>
   store stored_only = [reg0] \<and>
   store (disconnectForUser reg0 stored_only) = [] \<and>
   disconnectForUser reg0 stored_only \<noteq> stored_only \<and>
   wsStorage opened (ws_key reg0) = Some 0 \<and>
   heartbeat (sessions opened ! 0) = Some 0 \<and>
   iv_active (intervals (disconnectForUser reg0 opened) ! 0)"
proof -
  have a: "store (disconnectForUser reg0 stored_only) = []" "store stored_only = [reg0]"
    "wsStorage stored_only (ws_key reg0) = None"
    by (simp_all add: stored_only_def init_def disconnectForUser_def destroy_def)
  have b: "disconnectForUser reg0 stored_only \<noteq> stored_only"
  proof
    assume "disconnectForUser reg0 stored_only = stored_only"
    then have "store (disconnectForUser reg0 stored_only) = store stored_only" by simp
    then show False by (simp add: a)
  qed
  have c: "iv_active (intervals (disconnectForUser reg0 opened) ! 0)"
    by (simp add: intervals_disconnectForUser opened_eq)
  have d: "wsStorage opened (ws_key reg0) = Some 0" "heartbeat (sessions opened ! 0) = Some 0"
    by (simp_all add: opened_eq)
  show ?thesis using a b c d by simp
qed

text \<open>
  Claim C9, as the code has it. \<open>disconnectForUser\<close> deletes the registry entry before
  it calls \<open>destroy\<close> and does not look at the outcome: when the destroy fails, the row
  stays in the table, the rejection is caught by nobody, and the entry is gone.
  The counterexample is the open session of \<open>reg0\<close> with the database not answering.
\<close>

theorem disconnectForUser_failed_destroy:
  "\<not> storeUp s \<Longrightarrow>
   wsStorage (disconnectForUser r s) (ws_key r) = None \<and>
   store (disconnectForUser r s) = store s \<and>
   rejections (disconnectForUser r s) = Suc (rejections s)"
  by (simp add: disconnectForUser_def destroy_def ws_close_def split: option.splits)

theorem disconnectForUser_failed_destroy_witness:
  "\<not> storeUp opened_db_down \<and>
   wsStorage (disconnectForUser reg0 opened_db_down) (ws_key reg0) = None \<and>
   store (disconnectForUser reg0 opened_db_down) = store opened_db_down \<and>
   rejections (disconnectForUser reg0 opened_db_down) = Suc (rejections opened_db_down)"
proof -
  have h: "\<not> storeUp opened_db_down" by (simp add: opened_db_down_def)
  show ?thesis using h disconnectForUser_failed_destroy [OF h, of reg0] by simp
qed

theorem failed_destroy_counterexample:
  "\<not> storeUp opened_db_down \<and>
   wsStorage opened_db_down (ws_key reg0) = Some 0 \<and>
   store opened_db_down = [reg0] \<and>
   store (disconnectForUser reg0 opened_db_down) = [reg0] \<and>
   wsStorage (disconnectForUser reg0 opened_db_down) (ws_key reg0) = None"
  by (simp add: opened_db_down_def opened_eq disconnectForUser_def destroy_def ws_close_def)

subsection \<open>When the expiry check reads the table\<close>

lemma map_last_check_update:
  "map last_check (xs[i := (xs ! i)\<lparr>heartbeat := h\<rparr>]) = map last_check xs"
  by (cases "i < length xs") (simp_all add: map_update list_update_same_conv list_update_beyond)

lemma onOpen_last_check: "map last_check (sessions (onOpen cid sid s)) = map last_check (sessions s)"
  by (simp add: onOpen_def map_last_check_update)

lemma heartbeat_tick_reads:
  "storeReads (heartbeat_tick cid now s) =
     (if now - last_check (sessions s ! cid) \<ge> 86400000 then storeReads s @ [now]
      else storeReads s)"
  by (simp add: heartbeat_tick_def Let_def close_storeReads split: option.splits)

lemma heartbeat_tick_last_check:
  "cid < length (sessions s) \<Longrightarrow> now - last_check (sessions s ! cid) \<ge> 86400000 \<Longrightarrow>
   last_check (sessions (heartbeat_tick cid now s) ! cid) = now"
  by (simp add: heartbeat_tick_def Let_def close_sessions split: option.splits)

lemma connectForUser_sessions:
  "wsStorage s (ws_key r) = None \<Longrightarrow>
   sessions (snd (connectForUser env r s)) =
     sessions s @ [\<lparr>registration = r, heartbeat = None, last_check = 0\<rparr>]"
  by (simp add: connectForUser_def Let_def close_sessions reconnect_def clearInterval_fields
      split: option.splits prod.splits)

text \<open>
  Claim C8, as the code has it. \<open>last_check\<close> is 0 when a session starts; no event
  but a heartbeat tick changes it, the opening of the socket included; a tick at time
  \<open>now\<close> queries the table exactly when \<open>now - last_check\<close> is 24 hours
  (86400000 ms) or more, and then sets \<open>last_check\<close> to \<open>now\<close>, so that a later
  tick less than 24 hours after a querying one does not query.
  The counterexample: the socket of \<open>reg0\<close> opens at 1700000000000; after that
  \<open>last_check\<close> is still 0, and the tick 10 seconds later queries the table.
\<close>

theorem expiry_check_gate:
  "(wsStorage s (ws_key r) = None \<longrightarrow>
      last_check (sessions (snd (connectForUser env r s)) ! length (sessions s)) = 0) \<and>
   ((\<forall>h t. ev \<noteq> EvTick h t) \<longrightarrow>
      map last_check (sessions (step env s ev)) = map last_check (sessions s)) \<and>
   storeReads (heartbeat_tick cid now s) =
     (if now - last_check (sessions s ! cid) \<ge> 86400000 then storeReads s @ [now]
      else storeReads s) \<and>
   (cid < length (sessions s) \<and> now - last_check (sessions s ! cid) \<ge> 86400000 \<and>
    now' - now < 86400000 \<longrightarrow>
      storeReads (heartbeat_tick cid now' (heartbeat_tick cid now s)) = storeReads s @ [now])"
proof (intro conjI impI)
  assume "wsStorage s (ws_key r) = None"
  then show "last_check (sessions (snd (connectForUser env r s)) ! length (sessions s)) = 0"
    by (simp add: connectForUser_sessions)
next
  assume "\<forall>h t. ev \<noteq> EvTick h t"
  then show "map last_check (sessions (step env s ev)) = map last_check (sessions s)"
    by (cases ev)
      (simp_all add: step_def onOpen_last_check onError_def onClose_def close_sessions
        reconnect_def clearInterval_fields Let_def)
next
  show "storeReads (heartbeat_tick cid now s) =
     (if now - last_check (sessions s ! cid) \<ge> 86400000 then storeReads s @ [now]
      else storeReads s)"
    by (rule heartbeat_tick_reads)
next
  assume a: "cid < length (sessions s) \<and> now - last_check (sessions s ! cid) \<ge> 86400000 \<and>
    now' - now < 86400000"
  then have "last_check (sessions (heartbeat_tick cid now s) ! cid) = now"
    by (simp add: heartbeat_tick_last_check)
  with a show "storeReads (heartbeat_tick cid now' (heartbeat_tick cid now s)) = storeReads s @ [now]"
    by (simp add: heartbeat_tick_reads)
qed

theorem expiry_check_gate_witness:
  "wsStorage stored_only (ws_key reg0) = None \<and>
   last_check (sessions (snd (connectForUser env0 reg0 stored_only)) ! length (sessions stored_only)) = 0 \<and>
   map last_check (sessions (step env0 started (EvOpen 0 1700000000000))) = [0] \<and>
   storeReads (heartbeat_tick 0 1700000010000 opened) = [1700000010000] \<and>
   0 < length (sessions opened) \<and>
   storeReads (heartbeat_tick 0 1700086409999 (heartbeat_tick 0 1700000010000 opened)) =
     [1700000010000]"
proof -
  have a: "wsStorage stored_only (ws_key reg0) = None"
    by (simp add: stored_only_def init_def)
  have b: "map last_check (sessions started) = [0]" "last_check (sessions opened ! 0) = 0"
    "0 < length (sessions opened)" "storeReads opened = []"
    by (simp_all add: started_eq opened_eq)
  show ?thesis
    using a b
      expiry_check_gate [of stored_only reg0 env0 "EvOpen 0 1700000000000" 0 1700000010000 1700086409999]
      expiry_check_gate [of started reg0 env0 "EvOpen 0 1700000000000" 0 1700000010000 1700086409999]
      expiry_check_gate [of opened reg0 env0 "EvOpen 0 1700000000000" 0 1700000010000 1700086409999]
    by simp
qed

theorem first_tick_reads_store_counterexample:
  "ws_state (sockets started ! 0) = CONNECTING \<and>
   ws_state (sockets (step env0 started (EvOpen 0 1700000000000)) ! 0) = OPEN \<and>
   last_check (sessions (step env0 started (EvOpen 0 1700000000000)) ! 0) = 0 \<and>
   storeReads (run env0 [EvOpen 0 1700000000000] started) = [] \<and>
   storeReads (run env0 [EvOpen 0 1700000000000, EvTick 0 1700000010000] started) =
     [1700000010000]"
  by (simp add: run_def step_def started_eq onOpen_def heartbeat_tick_def findOne_def reg0_def
      Let_def)

subsection \<open>The access token\<close>

lemma has_invalid_character_iff:
  "has_invalid_character t \<longleftrightarrow>
     CHR ''?'' \<in> set t \<or> CHR ''&'' \<in> set t \<or> CHR ''='' \<in> set t \<or> CHR ''/'' \<in> set t"
  by (auto simp: has_invalid_character_def list_ex_iff)

lemma checkAccessToken_rejects:
  assumes "tok = Undefined \<or> tok = Null \<or>
           (\<exists>t. tok = Str t \<and> (t = [] \<or> CHR ''?'' \<in> set t \<or> CHR ''&'' \<in> set t \<or>
                                 CHR ''='' \<in> set t \<or> CHR ''/'' \<in> set t))"
  shows "checkAccessToken tok =
           Some (if truthy tok then ''access_token contains invalid character''
                 else ''missing access_token'')"
  using assms by (auto simp: checkAccessToken_def has_invalid_character_iff)

text \<open>
  Claim C2, as the code has it. The token is checked by the handler of \<open>/register\<close>:
  a request whose \<open>access_token\<close> is missing, empty or has one of the characters
  \<open>? & = /\<close> is answered with status 400 (with the message of the instance check when
  that fails first, else the message of the token check), or the handler throws on a
  missing \<open>instance_url\<close>; either way the state (table, registry, sockets) is as it
  was. \<open>connectForUser\<close> does not check the token: for a row with such a token, when
  the key is free, the app and instance checks pass and the constructor accepts the
  address, it makes the socket and registers it, and so does the restore at start.
  The counterexample: a stored row with token \<open>a/b\<close> gets its socket from the restore
  at start, and so does \<open>connectForUser\<close> on a row with the empty token.
\<close>

theorem register_rejects_bad_token:
  assumes "access_token b = tok"
    and "tok = Undefined \<or> tok = Null \<or>
         (\<exists>t. tok = Str t \<and> (t = [] \<or> CHR ''?'' \<in> set t \<or> CHR ''&'' \<in> set t \<or>
                               CHR ''='' \<in> set t \<or> CHR ''/'' \<in> set t))"
  shows "snd (register env now b s) = s \<and>
         fst (register env now b s) =
           (case instance_url b of
              Str u \<Rightarrow>
                Inr (400, case checkInstanceUrl env (Str (toLowerCase env u)) of
                            Some err \<Rightarrow> err
                          | None \<Rightarrow> if truthy tok then ''access_token contains invalid character''
                                    else ''missing access_token'')
            | Undefined \<Rightarrow> Inl TypeError
            | Null \<Rightarrow> Inl TypeError) \<and>
         (accessToken r = tok \<and> wsStorage s' (ws_key r) = None \<and>
          checkAppId env (appId r) (appSecret r) = None \<and>
          checkInstanceUrl env (instanceUrl r) = None \<and> url_accepted env (stream_url env r) \<longrightarrow>
            connectForUser env r s' =
              (Inr RUndefined,
               s'\<lparr>sessions := sessions s' @
                      [\<lparr>registration = r, heartbeat = None, last_check = 0\<rparr>],
                  sockets := sockets s' @
                      [\<lparr>ws_url = stream_url env r, ws_state = CONNECTING,
                        ws_session = length (sessions s')\<rparr>],
                  wsStorage := (wsStorage s')(ws_key r \<mapsto> length (sockets s'))\<rparr>) \<and>
            (storeUp s' \<and> store s' = [r] \<longrightarrow>
               sockets (restore env s') =
                 sockets s' @ [\<lparr>ws_url = stream_url env r, ws_state = CONNECTING,
                                ws_session = length (sessions s')\<rparr>]))"
proof (intro conjI impI)
  have c: "checkAccessToken (access_token b) =
      Some (if truthy tok then ''access_token contains invalid character''
            else ''missing access_token'')"
    using checkAccessToken_rejects [OF assms(2)] assms(1) by simp
  show "snd (register env now b s) = s"
    by (simp add: register_def c split: jsval.splits option.splits)
  show "fst (register env now b s) =
           (case instance_url b of
              Str u \<Rightarrow>
                Inr (400, case checkInstanceUrl env (Str (toLowerCase env u)) of
                            Some err \<Rightarrow> err
                          | None \<Rightarrow> if truthy tok then ''access_token contains invalid character''
                                    else ''missing access_token'')
            | Undefined \<Rightarrow> Inl TypeError
            | Null \<Rightarrow> Inl TypeError)"
    by (simp add: register_def c split: jsval.splits option.splits)
next
  assume a: "accessToken r = tok \<and> wsStorage s' (ws_key r) = None \<and>
          checkAppId env (appId r) (appSecret r) = None \<and>
          checkInstanceUrl env (instanceUrl r) = None \<and> url_accepted env (stream_url env r)"
  then show f: "connectForUser env r s' =
              (Inr RUndefined,
               s'\<lparr>sessions := sessions s' @
                      [\<lparr>registration = r, heartbeat = None, last_check = 0\<rparr>],
                  sockets := sockets s' @
                      [\<lparr>ws_url = stream_url env r, ws_state = CONNECTING,
                        ws_session = length (sessions s')\<rparr>],
                  wsStorage := (wsStorage s')(ws_key r \<mapsto> length (sockets s'))\<rparr>)"
    by (simp add: connectForUser_fresh)
  assume "storeUp s' \<and> store s' = [r]"
  then show "sockets (restore env s') =
                 sockets s' @ [\<lparr>ws_url = stream_url env r, ws_state = CONNECTING,
                                ws_session = length (sessions s')\<rparr>]"
    by (simp add: restore_def f)
qed

theorem register_rejects_bad_token_witness:
  "access_token body_bad_token = Str ''a/b'' \<and> CHR ''/'' \<in> set ''a/b'' \<and>
   register env0 1700000000000 body_bad_token init =
     (Inr (400, ''access_token contains invalid character''), init) \<and>
   access_token body_no_token = Undefined \<and>
   register env0 1700000000000 body_no_token init = (Inr (400, ''missing access_token''), init) \<and>
   accessToken reg_bad_token = Str ''a/b'' \<and>
   wsStorage (init\<lparr>store := [reg_bad_token]\<rparr>) (ws_key reg_bad_token) = None \<and>
   checkAppId env0 (appId reg_bad_token) (appSecret reg_bad_token) = None \<and>
   checkInstanceUrl env0 (instanceUrl reg_bad_token) = None \<and>
   url_accepted env0 (stream_url env0 reg_bad_token) \<and>
   fst (connectForUser env0 reg_bad_token (init\<lparr>store := [reg_bad_token]\<rparr>)) = Inr RUndefined \<and>
   sockets (restore env0 (init\<lparr>store := [reg_bad_token]\<rparr>)) =
     [\<lparr>ws_url = stream_url env0 reg_bad_token, ws_state = CONNECTING, ws_session = 0\<rparr>]"
proof -
  have t1: "access_token body_bad_token = Str ''a/b''"
    and t2: "access_token body_no_token = Undefined"
    and i1: "instance_url body_bad_token = Str ''https://Example.social''"
    and i2: "instance_url body_no_token = Str ''https://Example.social''"
    by (simp_all add: body_bad_token_def body_no_token_def)
  have b1: "Str ''a/b'' = Undefined \<or> Str ''a/b'' = Null \<or>
         (\<exists>t. Str ''a/b'' = Str t \<and> (t = [] \<or> CHR ''?'' \<in> set t \<or> CHR ''&'' \<in> set t \<or>
                               CHR ''='' \<in> set t \<or> CHR ''/'' \<in> set t))"
    by simp
  have b2: "Undefined = Undefined \<or> Undefined = Null \<or>
         (\<exists>t. Undefined = Str t \<and> (t = [] \<or> CHR ''?'' \<in> set t \<or> CHR ''&'' \<in> set t \<or>
                               CHR ''='' \<in> set t \<or> CHR ''/'' \<in> set t))"
    by simp
  have low: "toLowerCase env0 ''https://Example.social'' = ''https://example.social''"
    by code_simp
  have ok: "checkInstanceUrl env0 (Str ''https://example.social'') = None"
    by (simp add: checkInstanceUrl_env0)
  have r: "accessToken reg_bad_token = Str ''a/b''"
    "wsStorage (init\<lparr>store := [reg_bad_token]\<rparr>) (ws_key reg_bad_token) = None"
    "checkAppId env0 (appId reg_bad_token) (appSecret reg_bad_token) = None"
    "checkInstanceUrl env0 (instanceUrl reg_bad_token) = None"
    "url_accepted env0 (stream_url env0 reg_bad_token)"
    "storeUp (init\<lparr>store := [reg_bad_token]\<rparr>)"
    "sockets (init\<lparr>store := [reg_bad_token]\<rparr>) = []"
    "sessions (init\<lparr>store := [reg_bad_token]\<rparr>) = []"
    by (simp_all add: reg_bad_token_def reg0_def init_def checkAppId_env0 checkInstanceUrl_env0
        stream_url_env0 url_accepted_env0 known_scheme_def)
  show ?thesis
    using t1 t2 r
      register_rejects_bad_token [OF t1 b1, of env0 1700000000000 init reg_bad_token
        "init\<lparr>store := [reg_bad_token]\<rparr>"]
      register_rejects_bad_token [OF t2 b2, of env0 1700000000000 init reg_bad_token
        "init\<lparr>store := [reg_bad_token]\<rparr>"]
    by (simp add: i1 i2 low ok prod_eq_iff)
qed

theorem connectForUser_bad_token_counterexample:
  "checkAccessToken (accessToken reg_bad_token) = Some ''access_token contains invalid character'' \<and>
   store (init\<lparr>store := [reg_bad_token]\<rparr>) = [reg_bad_token] \<and>
   sockets (restore env0 (init\<lparr>store := [reg_bad_token]\<rparr>)) =
     [\<lparr>ws_url = ''https://example.social/api/v1/streaming/?access_token=a/b&stream=user'',
       ws_state = CONNECTING, ws_session = 0\<rparr>] \<and>
   checkAccessToken (accessToken (reg0\<lparr>accessToken := Str ''''\<rparr>)) = Some ''missing access_token'' \<and>
   sockets (snd (connectForUser env0 (reg0\<lparr>accessToken := Str ''''\<rparr>) init)) =
     [\<lparr>ws_url = ''https://example.social/api/v1/streaming/?access_token=&stream=user'',
       ws_state = CONNECTING, ws_session = 0\<rparr>]"
proof -
  have a: "connectForUser env0 reg_bad_token (init\<lparr>store := [reg_bad_token]\<rparr>) =
     (Inr RUndefined,
      init\<lparr>store := [reg_bad_token]\<rparr>
        \<lparr>sessions := sessions (init\<lparr>store := [reg_bad_token]\<rparr>) @
             [\<lparr>registration = reg_bad_token, heartbeat = None, last_check = 0\<rparr>],
         sockets := sockets (init\<lparr>store := [reg_bad_token]\<rparr>) @
             [\<lparr>ws_url = stream_url env0 reg_bad_token, ws_state = CONNECTING,
               ws_session = length (sessions (init\<lparr>store := [reg_bad_token]\<rparr>))\<rparr>],
         wsStorage := (wsStorage (init\<lparr>store := [reg_bad_token]\<rparr>))
             (ws_key reg_bad_token \<mapsto> length (sockets (init\<lparr>store := [reg_bad_token]\<rparr>)))\<rparr>)"
    by (rule connectForUser_fresh)
      (simp_all add: reg_bad_token_def reg0_def init_def checkAppId_env0 checkInstanceUrl_env0
        stream_url_env0 url_accepted_env0 known_scheme_def)
  have b: "connectForUser env0 (reg0\<lparr>accessToken := Str ''''\<rparr>) init =
     (Inr RUndefined,
      init\<lparr>sessions := [\<lparr>registration = reg0\<lparr>accessToken := Str ''''\<rparr>, heartbeat = None,
                          last_check = 0\<rparr>],
           sockets := [\<lparr>ws_url = stream_url env0 (reg0\<lparr>accessToken := Str ''''\<rparr>),
                        ws_state = CONNECTING, ws_session = 0\<rparr>],
           wsStorage := [ws_key (reg0\<lparr>accessToken := Str ''''\<rparr>) \<mapsto> 0]\<rparr>)"
    by (rule connectForUser_init)
      (simp_all add: reg0_def stream_url_env0 known_scheme_def)
  have c: "checkAccessToken (accessToken reg_bad_token) =
      Some ''access_token contains invalid character''"
    "checkAccessToken (accessToken (reg0\<lparr>accessToken := Str ''''\<rparr>)) = Some ''missing access_token''"
    by (simp_all add: reg_bad_token_def checkAccessToken_def has_invalid_character_iff)
  have u: "stream_url env0 reg_bad_token =
      ''https://example.social/api/v1/streaming/?access_token=a/b&stream=user''"
    "stream_url env0 (reg0\<lparr>accessToken := Str ''''\<rparr>) =
      ''https://example.social/api/v1/streaming/?access_token=&stream=user''"
    by (simp_all add: stream_url_env0 reg_bad_token_def reg0_def)
  have s0: "sockets init = []" "sessions init = []" "storeUp init"
    by (simp_all add: init_def)
  show ?thesis
    using c by (simp add: restore_def a b u s0)
qed

subsection \<open>Sockets per key\<close>

text \<open>
  Claim C5. The session of \<open>reg0\<close> has made socket 0. The socket reports an error
  and then closes with code 1006; each of the two handlers schedules a \<open>reconnect\<close>,
  and each \<open>reconnect\<close> makes a socket to the same address without closing the one
  before: sockets 1 and 2 are both connecting, and \<open>wsStorage\<close> knows only socket 2.
\<close>

theorem error_then_close_two_live_sockets:
  "map ws_state (sockets (run env0 [EvError 0, EvClose 0 1006, EvTimeout 0 5000, EvTimeout 0 5000] started)) =
     [CLOSED, CONNECTING, CONNECTING] \<and>
   map ws_url (sockets (run env0 [EvError 0, EvClose 0 1006, EvTimeout 0 5000, EvTimeout 0 5000] started)) =
     [stream_url env0 reg0, stream_url env0 reg0, stream_url env0 reg0] \<and>
   length (filter live (sockets (run env0 [EvError 0, EvClose 0 1006, EvTimeout 0 5000, EvTimeout 0 5000] started))) = 2 \<and>
   wsStorage (run env0 [EvError 0, EvClose 0 1006, EvTimeout 0 5000, EvTimeout 0 5000] started) (ws_key reg0) = Some 2"
  by (simp add: after_failure_eq live_def ws_key_def)


subsection \<open>Where the registry key is injective\<close>

text \<open>
  When neither \<open>appId\<close> nor \<open>tag\<close> has a colon, the key determines the three parts:
  they are read back from the right.
\<close>

lemma append_sep_inj:
  "x \<notin> set u \<Longrightarrow> x \<notin> set v \<Longrightarrow> u @ x # p = v @ x # q \<Longrightarrow> u = v \<and> p = q"
proof (induction u arbitrary: v)
  case Nil
  then show ?case by (cases v) auto
next
  case (Cons a u)
  then show ?case by (cases v) auto
qed

lemma sep_append_inj:
  assumes "x \<notin> set b" and "x \<notin> set b'" and "a @ x # b = a' @ x # b'"
  shows "a = a' \<and> b = b'"
proof -
  have "rev b @ x # rev a = rev b' @ x # rev a'"
    using arg_cong [OF assms(3), of rev] by simp
  then have "rev b = rev b' \<and> rev a = rev a'"
    using assms(1,2) append_sep_inj [of x "rev b" "rev b'" "rev a" "rev a'"] by simp
  then show ?thesis by simp
qed

lemma key_of_inj_without_colon:
  assumes "CHR '':'' \<notin> set a1" "CHR '':'' \<notin> set t1" "CHR '':'' \<notin> set a2" "CHR '':'' \<notin> set t2"
    and "key_of (Str i1) (Str a1) (Str t1) = key_of (Str i2) (Str a2) (Str t2)"
  shows "i1 = i2 \<and> a1 = a2 \<and> t1 = t2"
proof -
  have e: "(i1 @ CHR '':'' # a1) @ CHR '':'' # t1 = (i2 @ CHR '':'' # a2) @ CHR '':'' # t2"
    using assms(5) by (simp add: key_of_def)
  have 1: "i1 @ CHR '':'' # a1 = i2 @ CHR '':'' # a2" and 2: "t1 = t2"
    using sep_append_inj [OF assms(2,4) e] by simp_all
  show ?thesis
    using sep_append_inj [OF assms(1,3) 1] 2 by simp
qed

end
